theory Spec2Isabelle
  imports Main "HOL-Library.AList"
begin

section \<open>Data model of the driver manager (driver\_manager.py)\<close>

text \<open>
  Python dictionaries keep insertion order, so a dict is an association list:
  \<open>map_of\<close> reads a key, \<open>AList.update\<close> assigns one (in place when the key exists,
  appended otherwise). Values of type Any are \<open>pyval\<close>; its members compare with
  Python's \<open>==\<close> exactly as they compare structurally here.
\<close>

datatype pyval = PNone | PInt int | PStr string | PList "pyval list"

type_synonym pydict = "(string \<times> pyval) list"

datatype error = AttributeError | TypeError | KeyError

text \<open>
  Modelled from the spec: the members of DriverStatus (module drivers/driver.py is
  not part of the sources). The record field \<open>status\<close> starts as the empty
  string, which is no member of the enumeration: it is \<open>None\<close> below.
\<close>

datatype DriverStatus = SETUP | RUNNING | ERROR | EXITED

text \<open>Driver names are the strings DRIVER\_n; the constructor stands for the format.\<close>

datatype driver_name = DRIVER nat

datatype DriverMgrCommands = SETUP_DRIVERS | CLEAN | UPDATES | STATUS | INFO | VAR_INFO | STATS

record var_data =
  handle :: "string option"
  meta :: pydict

record setup_data =
  sd_parameters :: "pydict option"
  sd_variables :: "(string \<times> var_data) list option"

record driver_data =
  dd_DRIVER :: "string option"
  dd_SETUP :: "setup_data option"

text \<open>Messages on a driver pipe, tagged by DriverActions; \<open>A_OTHER\<close> is any other tag.\<close>

datatype pipe_msg =
    ADD_VARIABLES "(string \<times> var_data) list"
  | UPDATE pydict
  | EXIT
  | A_STATUS DriverStatus
  | A_INFO string
  | A_VAR_INFO string string
  | A_OTHER string

datatype payload =
    P_None
  | P_Setup "(string \<times> driver_data) list"
  | P_Values pydict
  | P_Str string
  | P_Results "(string \<times> string) list"
  | P_Status "(string \<times> DriverStatus option) list"
  | P_Text "(string \<times> string) list"
  | P_Stats "(string \<times> nat) list"

text \<open>What the manager does to the outside: a trace, oldest first.\<close>

datatype effect =
    Pipe_send driver_name pipe_msg
  | Proc_start driver_name
  | Proc_join driver_name
  | Host_send DriverMgrCommands payload

record VariableStructure =
  var_handlers :: "string list"
  var_parameters :: var_data
  var_value :: pyval
  var_info :: string
  write_count :: nat
  read_count :: nat

record DriverStructure =
  class_name :: string
  name :: driver_name
  handlers :: "string list"
  parameters :: "pydict option"
  variables :: "(string \<times> VariableStructure) list"
  status :: "DriverStatus option"
  info :: string
  info_log :: "string list"
  latency :: string
  inbox :: "pipe_msg list"
  updates :: pydict

text \<open>
  The manager. \<open>inbox\<close> of a driver holds what its worker has sent and the
  manager has not yet received; \<open>effects\<close> records sends, starts and joins.
  Logging and the status file touch no other field and are left out.
\<close>

record DriverManager =
  drivers :: "DriverStructure list"
  driver_counter :: nat
  handles :: "(string \<times> (string \<times> driver_name)) list"
  running :: bool
  stats_updates :: "(string \<times> nat) list"
  status_updates :: "(string \<times> DriverStatus option) list"
  info_updates :: "(string \<times> string) list"
  var_info_updates :: "(string \<times> string) list"
  value_updates :: pydict
  start_time :: int
  last_status_record :: int
  effects :: "effect list"

definition registered_drivers :: "string list" where
  "registered_drivers =
    [''allenbradley_logix'', ''cprog_cri'', ''development'', ''enip_generic_device'',
     ''hokuyo_uam'', ''igus_irc'', ''kuka_varproxy'', ''micro800_http'',
     ''modbustcp_master'', ''mqtt_client'', ''omron_fins'', ''opcua_client'',
     ''rosbridge'', ''s7protocol'', ''simit'', ''simulink_udp'', ''sqlite3_conn'',
     ''twincat_ads'', ''udp_driver'', ''ur_driver'']"

definition DriverManager_init :: "int \<Rightarrow> DriverManager" where
  "DriverManager_init t0 =
    \<lparr>drivers = [], driver_counter = 0, handles = [], running = True,
     stats_updates = [], status_updates = [], info_updates = [],
     var_info_updates = [], value_updates = [], start_time = t0,
     last_status_record = 0, effects = []\<rparr>"

definition DriverStructure_init ::
  "string \<Rightarrow> driver_name \<Rightarrow> string \<Rightarrow> pydict option \<Rightarrow> DriverStructure" where
  "DriverStructure_init cls nm h ps =
    \<lparr>class_name = cls, name = nm, handlers = [h], parameters = ps, variables = [],
     status = None, info = [], info_log = [], latency = [], inbox = [], updates = []\<rparr>"

definition VariableStructure_init :: "string \<Rightarrow> var_data \<Rightarrow> VariableStructure" where
  "VariableStructure_init h vd =
    \<lparr>var_handlers = [h], var_parameters = vd, var_value = PNone, var_info = [],
     write_count = 0, read_count = 0\<rparr>"

definition add_handle :: "DriverStructure \<Rightarrow> string \<Rightarrow> DriverStructure" where
  "add_handle d h = d\<lparr>handlers := handlers d @ [h]\<rparr>"

definition var_add_handle :: "VariableStructure \<Rightarrow> string \<Rightarrow> VariableStructure" where
  "var_add_handle v h = v\<lparr>var_handlers := var_handlers v @ [h]\<rparr>"

section \<open>Compatibility resolver\<close>

definition get_class :: "driver_data \<Rightarrow> string" where
  "get_class dd = (case dd_DRIVER dd of None \<Rightarrow> ''None'' | Some c \<Rightarrow> c)"

definition get_parameters :: "driver_data \<Rightarrow> pydict option" where
  "get_parameters dd = (case dd_SETUP dd of None \<Rightarrow> None | Some sd \<Rightarrow> sd_parameters sd)"

definition get_variables :: "driver_data \<Rightarrow> (string \<times> var_data) list" where
  "get_variables dd =
    (case dd_SETUP dd of None \<Rightarrow> []
     | Some sd \<Rightarrow> (case sd_variables sd of None \<Rightarrow> [] | Some vs \<Rightarrow> vs))"

text \<open>The loop of is\_compatible over the request's parameters; \<open>key in None\<close> raises.\<close>

fun compatible_items :: "pydict option \<Rightarrow> pydict \<Rightarrow> error + bool" where
  "compatible_items own [] = Inr True"
| "compatible_items own ((k, v) # rest) =
    (case own of
       None \<Rightarrow> Inl TypeError
     | Some m \<Rightarrow>
        (case map_of m k of
           None \<Rightarrow> compatible_items own rest
         | Some w \<Rightarrow> if w \<noteq> v then Inr False else compatible_items own rest))"

definition is_compatible :: "DriverStructure \<Rightarrow> driver_data \<Rightarrow> error + bool" where
  "is_compatible d dd =
    (if class_name d = get_class dd then
       (case get_parameters dd of
          None \<Rightarrow> Inl AttributeError
        | Some ps \<Rightarrow> compatible_items (parameters d) ps)
     else Inr False)"

text \<open>
  find\_compatible\_driver returns a reference to a registry entry: here its position,
  counted from \<open>i\<close>.
\<close>

fun find_compatible_from :: "DriverStructure list \<Rightarrow> driver_data \<Rightarrow> nat \<Rightarrow> error + nat option" where
  "find_compatible_from [] dd i = Inr None"
| "find_compatible_from (d # ds) dd i =
    (case is_compatible d dd of
       Inl e \<Rightarrow> Inl e
     | Inr True \<Rightarrow> Inr (Some i)
     | Inr False \<Rightarrow> find_compatible_from ds dd (Suc i))"

definition find_compatible_driver :: "DriverManager \<Rightarrow> driver_data \<Rightarrow> error + nat option" where
  "find_compatible_driver s dd = find_compatible_from (drivers s) dd 0"

section \<open>Variable registration and provisioning\<close>

text \<open>
  The loop of add\_driver\_variables for the driver named \<open>nm\<close>; the accumulator is
  \<open>(res, self.variables, var_setup_data)\<close>.
\<close>

type_synonym handle_delta = "(string \<times> (string \<times> driver_name)) list"

fun add_variables_loop ::
  "driver_name \<Rightarrow> (string \<times> var_data) list \<Rightarrow>
   handle_delta \<times> (string \<times> VariableStructure) list \<times> (string \<times> var_data) list \<Rightarrow>
   handle_delta \<times> (string \<times> VariableStructure) list \<times> (string \<times> var_data) list" where
  "add_variables_loop nm [] acc = acc"
| "add_variables_loop nm ((var_id, vd) # rest) (res, vars, setup) =
    (case handle vd of
       None \<Rightarrow> add_variables_loop nm rest (res, vars, setup)
     | Some h \<Rightarrow>
        (case map_of vars var_id of
           None \<Rightarrow>
             add_variables_loop nm rest
               (AList.update h (var_id, nm) res,
                AList.update var_id (VariableStructure_init h vd) vars,
                AList.update var_id vd setup)
         | Some vs \<Rightarrow>
             add_variables_loop nm rest
               (AList.update h (var_id, nm) res,
                AList.update var_id (var_add_handle vs h) vars,
                setup)))"

text \<open>Returns the handle delta, the driver as mutated, and what was sent on its pipe.\<close>

definition add_driver_variables ::
  "DriverStructure \<Rightarrow> (string \<times> var_data) list \<Rightarrow> handle_delta \<times> DriverStructure \<times> effect list" where
  "add_driver_variables d vars =
    (case add_variables_loop (name d) vars ([], variables d, []) of
       (res, vs, setup) \<Rightarrow>
         (res, d\<lparr>variables := vs\<rparr>,
          if setup \<noteq> [] then [Pipe_send (name d) (ADD_VARIABLES setup)] else []))"

text \<open>Python's \<open>dict.update(other)\<close>.\<close>

definition dict_update :: "('k \<times> 'v) list \<Rightarrow> ('k \<times> 'v) list \<Rightarrow> ('k \<times> 'v) list" where
  "dict_update m other = fold (\<lambda>(k, v) acc. AList.update k v acc) other m"

definition start_driver ::
  "string \<Rightarrow> driver_data \<Rightarrow> DriverManager \<Rightarrow> DriverStructure option \<times> DriverManager" where
  "start_driver driver_handle dd s =
    (let cls = get_class dd in
     if cls \<in> set registered_drivers then
       (let n = driver_counter s + 1;
            nm = DRIVER n;
            new_driver = DriverStructure_init cls nm driver_handle (get_parameters dd)
        in (Some new_driver,
            s\<lparr>driver_counter := n, effects := effects s @ [Proc_start nm]\<rparr>))
     else (None, s))"

text \<open>
  \<open>self._drivers[name] = struct\<close>: in place when the name is a key already, appended
  otherwise; the result comes with the position of the entry.
\<close>

fun index_of_name :: "DriverStructure list \<Rightarrow> driver_name \<Rightarrow> nat option" where
  "index_of_name [] nm = None"
| "index_of_name (d # ds) nm =
    (if name d = nm then Some 0 else map_option Suc (index_of_name ds nm))"

definition register_driver :: "DriverStructure list \<Rightarrow> DriverStructure \<Rightarrow> DriverStructure list \<times> nat" where
  "register_driver ds d =
    (case index_of_name ds (name d) of
       None \<Rightarrow> (ds @ [d], length ds)
     | Some i \<Rightarrow> (ds[i := d], i))"

text \<open>The last statement of the loop body of setup\_drivers, on the entry at position \<open>i\<close>.\<close>

definition register_variables :: "nat \<Rightarrow> driver_data \<Rightarrow> DriverManager \<Rightarrow> DriverManager" where
  "register_variables i dd s =
    (case add_driver_variables (drivers s ! i) (get_variables dd) of
       (res, d', sent) \<Rightarrow>
         s\<lparr>drivers := list_update (drivers s) i d',
           handles := dict_update (handles s) res,
           effects := effects s @ sent\<rparr>)"

definition setup_driver ::
  "string \<times> driver_data \<Rightarrow> (string \<times> string) list \<times> DriverManager \<Rightarrow>
   error + (string \<times> string) list \<times> DriverManager" where
  "setup_driver entry acc =
    (case entry of (driver_handle, dd) \<Rightarrow>
     case acc of (res, s) \<Rightarrow>
     case find_compatible_driver s dd of
       Inl e \<Rightarrow> Inl e
     | Inr (Some i) \<Rightarrow>
         (let d = add_handle (drivers s ! i) driver_handle;
              s1 = s\<lparr>drivers := list_update (drivers s) i d,
                     status_updates := AList.update driver_handle (status d) (status_updates s)\<rparr>
          in Inr (AList.update driver_handle ''SUCCESS'' res, register_variables i dd s1))
     | Inr None \<Rightarrow>
         (case start_driver driver_handle dd s of
            (Some d, s1) \<Rightarrow>
              (case register_driver (drivers s1) d of
                 (ds, i) \<Rightarrow>
                   Inr (AList.update driver_handle ''SUCCESS'' res,
                        register_variables i dd (s1\<lparr>drivers := ds\<rparr>)))
          | (None, s1) \<Rightarrow> Inr (AList.update driver_handle ''FAILED'' res, s1)))"

fun setup_drivers_loop ::
  "(string \<times> driver_data) list \<Rightarrow> (string \<times> string) list \<times> DriverManager \<Rightarrow>
   error + (string \<times> string) list \<times> DriverManager" where
  "setup_drivers_loop [] acc = Inr acc"
| "setup_drivers_loop (entry # rest) acc =
    (case setup_driver entry acc of
       Inl e \<Rightarrow> Inl e
     | Inr acc' \<Rightarrow> setup_drivers_loop rest acc')"

definition setup_drivers ::
  "(string \<times> driver_data) list \<Rightarrow> DriverManager \<Rightarrow> error + (string \<times> string) list \<times> DriverManager" where
  "setup_drivers data s = setup_drivers_loop data ([], s)"

section \<open>Shutdown\<close>

text \<open>
  clean\_drivers: EXIT on every pipe in registry order, then popitem (last entry
  first) and join until the registry is empty.
\<close>

definition clean_drivers :: "DriverManager \<Rightarrow> DriverManager" where
  "clean_drivers s =
    s\<lparr>drivers := [],
      effects := effects s
        @ map (\<lambda>d. Pipe_send (name d) EXIT) (drivers s)
        @ map (\<lambda>d. Proc_join (name d)) (rev (drivers s))\<rparr>"

section \<open>Host writes\<close>

text \<open>\<open>self._drivers[driver_name]\<close>: the entry under that key, or KeyError.\<close>

definition update_variable :: "string \<Rightarrow> pyval \<Rightarrow> DriverStructure \<Rightarrow> error + DriverStructure" where
  "update_variable var_id v d =
    (case map_of (variables d) var_id of
       None \<Rightarrow> Inl KeyError
     | Some var \<Rightarrow>
         if var_value var \<noteq> v then
           Inr (d\<lparr>updates := AList.update var_id v (updates d),
                  variables := AList.update var_id
                    (var\<lparr>write_count := write_count var + 1, var_value := v\<rparr>) (variables d)\<rparr>)
         else Inr d)"

definition updates_entry :: "string \<times> pyval \<Rightarrow> DriverManager \<Rightarrow> error + DriverManager" where
  "updates_entry entry s =
    (case entry of (var_handle, v) \<Rightarrow>
     case map_of (handles s) var_handle of
       None \<Rightarrow> Inr s
     | Some (var_id, driver_name) \<Rightarrow>
        (case index_of_name (drivers s) driver_name of
           None \<Rightarrow> Inl KeyError
         | Some i \<Rightarrow>
            (if status (drivers s ! i) = Some RUNNING then
               (case update_variable var_id v (drivers s ! i) of
                  Inl e \<Rightarrow> Inl e
                | Inr d \<Rightarrow> Inr (s\<lparr>drivers := list_update (drivers s) i d\<rparr>))
             else Inr s)))"

fun updates_loop :: "pydict \<Rightarrow> DriverManager \<Rightarrow> error + DriverManager" where
  "updates_loop [] s = Inr s"
| "updates_loop (entry # rest) s =
    (case updates_entry entry s of
       Inl e \<Rightarrow> Inl e
     | Inr s' \<Rightarrow> updates_loop rest s')"

text \<open>The second loop of the UPDATES branch: one UPDATE per driver with pending values.\<close>

definition flush_updates :: "DriverManager \<Rightarrow> DriverManager" where
  "flush_updates s =
    s\<lparr>drivers := map (\<lambda>d. if updates d \<noteq> [] then d\<lparr>updates := []\<rparr> else d) (drivers s),
      effects := effects s
        @ map (\<lambda>d. Pipe_send (name d) (UPDATE (updates d)))
            (filter (\<lambda>d. updates d \<noteq> []) (drivers s))\<rparr>"

section \<open>Command handler\<close>

definition send_command ::
  "DriverMgrCommands \<Rightarrow> payload \<Rightarrow> DriverManager \<Rightarrow> error + payload option \<times> DriverManager" where
  "send_command command data s =
    (if command = CLEAN then
       Inr (Some (P_Str ''SUCCESS''), (clean_drivers s)\<lparr>running := False\<rparr>)
     else if command = SETUP_DRIVERS then
       (case data of
          P_Setup entries \<Rightarrow>
            (case setup_drivers entries s of
               Inl e \<Rightarrow> Inl e
             | Inr (res, s') \<Rightarrow> Inr (Some (P_Results res), s'))
        | _ \<Rightarrow> Inl AttributeError)
     else if command = UPDATES then
       (case data of
          P_Values entries \<Rightarrow>
            (case updates_loop entries s of
               Inl e \<Rightarrow> Inl e
             | Inr s' \<Rightarrow> Inr (None, flush_updates s'))
        | _ \<Rightarrow> Inl AttributeError)
     else Inr (None, s))"

section \<open>Update reconciler\<close>

text \<open>\<open>needle in text\<close> on strings.\<close>

fun starts_with :: "string \<Rightarrow> string \<Rightarrow> bool" where
  "starts_with [] text = True"
| "starts_with (c # cs) [] = False"
| "starts_with (c # cs) (t # ts) = (c = t \<and> starts_with cs ts)"

fun contains :: "string \<Rightarrow> string \<Rightarrow> bool" where
  "contains needle [] = starts_with needle []"
| "contains needle (t # ts) = (starts_with needle (t # ts) \<or> contains needle ts)"

definition set_all :: "string list \<Rightarrow> 'v \<Rightarrow> (string \<times> 'v) list \<Rightarrow> (string \<times> 'v) list" where
  "set_all hs v m = fold (\<lambda>h acc. AList.update h v acc) hs m"

text \<open>One entry of a worker UPDATE, on the driver's variables and \<open>_value_updates\<close>.\<close>

definition read_entry ::
  "string \<times> pyval \<Rightarrow> (string \<times> VariableStructure) list \<times> pydict \<Rightarrow>
   (string \<times> VariableStructure) list \<times> pydict" where
  "read_entry entry acc =
    (case entry of (var_id, v) \<Rightarrow>
     case acc of (vars, vu) \<Rightarrow>
     case map_of vars var_id of
       None \<Rightarrow> (vars, vu)
     | Some var \<Rightarrow>
         if var_value var \<noteq> v then
           (AList.update var_id (var\<lparr>var_value := v, read_count := read_count var + 1\<rparr>) vars,
            set_all (var_handlers var) v vu)
         else (vars, vu))"

text \<open>
  The body of the receive loop of run\_once for one message: the driver record and
  the manager's four coalescing maps change.
\<close>

fun process_message :: "pipe_msg \<Rightarrow> DriverStructure \<times> DriverManager \<Rightarrow> DriverStructure \<times> DriverManager" where
  "process_message (A_STATUS data) (d, s) =
    (if status d \<noteq> Some data then
       (d\<lparr>status := Some data\<rparr>,
        s\<lparr>status_updates := set_all (handlers d) (Some data) (status_updates s)\<rparr>)
     else (d, s))"
| "process_message (A_INFO data) (d, s) =
    (if contains ''Latency'' data then (d\<lparr>latency := data\<rparr>, s)
     else
       (let log = info_log d @ [data];
            log' = (if length log > 5 then drop (length log - 5) log else log)
        in (d\<lparr>info_log := log', info := data\<rparr>,
            s\<lparr>info_updates := set_all (handlers d) data (info_updates s)\<rparr>)))"
| "process_message (A_VAR_INFO msg var_id) (d, s) =
    (case map_of (variables d) var_id of
       None \<Rightarrow> (d, s)
     | Some var \<Rightarrow>
         if var_info var \<noteq> msg then
           (d\<lparr>variables := AList.update var_id (var\<lparr>var_info := msg\<rparr>) (variables d)\<rparr>,
            s\<lparr>var_info_updates := set_all (var_handlers var) msg (var_info_updates s)\<rparr>)
         else (d, s))"
| "process_message (UPDATE data) (d, s) =
    (case fold read_entry data (variables d, value_updates s) of
       (vars, vu) \<Rightarrow> (d\<lparr>variables := vars\<rparr>, s\<lparr>value_updates := vu\<rparr>))"
| "process_message other (d, s) = (d, s)"

text \<open>
  The receive loop on one pipe, over the messages waiting there: it stops when
  none is left or when \<open>counter\<close> reaches \<open>max_pipe_loops\<close>. Returns what is left.
\<close>

fun drain_pipe ::
  "pipe_msg list \<Rightarrow> int \<Rightarrow> int \<Rightarrow> DriverStructure \<times> DriverManager \<Rightarrow>
   pipe_msg list \<times> DriverStructure \<times> DriverManager" where
  "drain_pipe [] counter max_pipe_loops acc = ([], acc)"
| "drain_pipe (m # ms) counter max_pipe_loops acc =
    (let acc' = process_message m acc in
     if counter + 1 \<ge> max_pipe_loops then (ms, acc')
     else drain_pipe ms (counter + 1) max_pipe_loops acc')"

definition run_driver :: "int \<Rightarrow> DriverStructure \<Rightarrow> DriverManager \<Rightarrow> DriverStructure \<times> DriverManager" where
  "run_driver max_pipe_loops d s =
    (case drain_pipe (inbox d) 0 max_pipe_loops (d, s) of
       (left, d', s') \<Rightarrow> (d'\<lparr>inbox := left\<rparr>, s'))"

fun run_drivers :: "int \<Rightarrow> DriverStructure list \<Rightarrow> DriverManager \<Rightarrow> DriverStructure list \<times> DriverManager" where
  "run_drivers max_pipe_loops [] s = ([], s)"
| "run_drivers max_pipe_loops (d # ds) s =
    (case run_driver max_pipe_loops d s of
       (d', s') \<Rightarrow>
         (case run_drivers max_pipe_loops ds s' of
            (ds', s'') \<Rightarrow> (d' # ds', s'')))"

text \<open>
  run\_once; \<open>now\<close> is the reading \<open>int(time.perf_counter())\<close> taken in this call.
  The result is the truth value of the returned expression.
\<close>

definition run_once :: "int \<Rightarrow> int \<Rightarrow> DriverManager \<Rightarrow> bool \<times> DriverManager" where
  "run_once max_pipe_loops now s =
    (case run_drivers max_pipe_loops (drivers s) s of
       (ds, s1) \<Rightarrow>
         (let s2 = s1\<lparr>drivers := ds\<rparr>;
              now_sec = now - start_time s2;
              s3 = (if now_sec - last_status_record s2 \<ge> 1 then
                      s2\<lparr>last_status_record := now_sec,
                         stats_updates := [(''DRIVER_COUNT'', length (drivers s2)),
                                           (''VARIABLE_COUNT'', length (handles s2))]\<rparr>
                    else s2)
          in (status_updates s3 \<noteq> [] \<or> info_updates s3 \<noteq> [] \<or>
              var_info_updates s3 \<noteq> [] \<or> value_updates s3 \<noteq> [], s3)))"

definition get_updates ::
  "DriverManager \<Rightarrow>
   ((string \<times> DriverStatus option) list \<times> (string \<times> string) list \<times> (string \<times> string) list \<times>
    pydict \<times> (string \<times> nat) list) \<times> DriverManager" where
  "get_updates s =
    ((status_updates s, info_updates s, var_info_updates s, value_updates s, stats_updates s),
     s\<lparr>status_updates := [], info_updates := [], var_info_updates := [],
       value_updates := [], stats_updates := []\<rparr>)"

section \<open>Main loop\<close>

text \<open>
  The inner loop of run\_forever over the frames waiting on the host pipe: at most
  ten are taken. Returns the frames left, or the exception of a command.
\<close>

fun drain_host ::
  "(DriverMgrCommands \<times> payload) list \<Rightarrow> nat \<Rightarrow> DriverManager \<Rightarrow>
   error + (DriverMgrCommands \<times> payload) list \<times> DriverManager" where
  "drain_host [] counter s = Inr ([], s)"
| "drain_host ((command, data) # rest) counter s =
    (case send_command command data s of
       Inl e \<Rightarrow> Inl e
     | Inr (res_data, s1) \<Rightarrow>
         (let s2 = (case res_data of
                      None \<Rightarrow> s1
                    | Some r \<Rightarrow> s1\<lparr>effects := effects s1 @ [Host_send command r]\<rparr>)
          in if counter + 1 \<ge> 10 then Inr (rest, s2)
             else drain_host rest (counter + 1) s2))"

definition emit_updates :: "DriverManager \<Rightarrow> DriverManager" where
  "emit_updates s =
    (let s1 = (if status_updates s \<noteq> [] then
                 s\<lparr>effects := effects s @ [Host_send STATUS (P_Status (status_updates s))],
                   status_updates := []\<rparr> else s);
         s2 = (if info_updates s1 \<noteq> [] then
                 s1\<lparr>effects := effects s1 @ [Host_send INFO (P_Text (info_updates s1))],
                    info_updates := []\<rparr> else s1);
         s3 = (if var_info_updates s2 \<noteq> [] then
                 s2\<lparr>effects := effects s2 @ [Host_send VAR_INFO (P_Text (var_info_updates s2))],
                    var_info_updates := []\<rparr> else s2);
         s4 = (if value_updates s3 \<noteq> [] then
                 s3\<lparr>effects := effects s3 @ [Host_send UPDATES (P_Values (value_updates s3))],
                    value_updates := []\<rparr> else s3)
     in if stats_updates s4 \<noteq> [] then
          s4\<lparr>effects := effects s4 @ [Host_send STATS (P_Stats (stats_updates s4))],
             stats_updates := []\<rparr>
        else s4)"

text \<open>
  One pass of the \<open>while self._running\<close> loop of run\_forever, given the frames
  waiting on the host pipe and the clock reading of this pass.
\<close>

definition cycle ::
  "(DriverMgrCommands \<times> payload) list \<Rightarrow> int \<Rightarrow> DriverManager \<Rightarrow>
   error + (DriverMgrCommands \<times> payload) list \<times> DriverManager" where
  "cycle host_in now s =
    (case drain_host host_in 0 s of
       Inl e \<Rightarrow> Inl e
     | Inr (left, s1) \<Rightarrow>
         if running s1 then
           (case run_once 10 now s1 of
              (True, s2) \<Rightarrow> Inr (left, emit_updates s2)
            | (False, s2) \<Rightarrow> Inr (left, s2))
         else Inr (left, s1))"

section \<open>Runs of the manager\<close>

text \<open>A sequence of host commands through send\_command, replies dropped.\<close>

fun run_commands :: "(DriverMgrCommands \<times> payload) list \<Rightarrow> DriverManager \<Rightarrow> error + DriverManager" where
  "run_commands [] s = Inr s"
| "run_commands ((c, p) # rest) s =
    (case send_command c p s of Inl e \<Rightarrow> Inl e | Inr (r, s') \<Rightarrow> run_commands rest s')"

text \<open>The worker of driver \<open>nm\<close> puts a message on its end of the pipe.\<close>

definition worker_send :: "driver_name \<Rightarrow> pipe_msg \<Rightarrow> DriverManager \<Rightarrow> DriverManager" where
  "worker_send nm msg s =
    s\<lparr>drivers := map (\<lambda>d. if name d = nm then d\<lparr>inbox := inbox d @ [msg]\<rparr> else d) (drivers s)\<rparr>"

text \<open>
  The states a manager can be in: it is constructed, then commands, run\_once,
  get\_updates and passes of the main loop return, and workers send.
\<close>

inductive reachable :: "DriverManager \<Rightarrow> bool" where
  r_init: "reachable (DriverManager_init t0)"
| r_command: "reachable s \<Longrightarrow> send_command c p s = Inr (r, s') \<Longrightarrow> reachable s'"
| r_once: "reachable s \<Longrightarrow> run_once m now s = (b, s') \<Longrightarrow> reachable s'"
| r_updates: "reachable s \<Longrightarrow> get_updates s = (u, s') \<Longrightarrow> reachable s'"
| r_cycle: "reachable s \<Longrightarrow> cycle host_in now s = Inr (left, s') \<Longrightarrow> reachable s'"
| r_worker: "reachable s \<Longrightarrow> reachable (worker_send nm msg s)"

text \<open>
  \<open>h\<close> is among the handlers of \<open>self._drivers[dn].variables[v]\<close>, the lookups
  being those of the registries.
\<close>

definition resolves :: "DriverManager \<Rightarrow> string \<Rightarrow> string \<Rightarrow> driver_name \<Rightarrow> bool" where
  "resolves s h v dn =
    (case index_of_name (drivers s) dn of
       None \<Rightarrow> False
     | Some i \<Rightarrow>
        (case map_of (variables (drivers s ! i)) v of
           None \<Rightarrow> False
         | Some var \<Rightarrow> h \<in> set (var_handlers var)))"

definition index_ok :: "DriverManager \<Rightarrow> bool" where
  "index_ok s = (\<forall>(h, v, dn) \<in> set (handles s). resolves s h v dn)"

definition handlers_ok :: "DriverStructure \<Rightarrow> bool" where
  "handlers_ok d =
    (handlers d \<noteq> [] \<and> length (info_log d) \<le> 5 \<and>
     (\<forall>var \<in> snd ` set (variables d). var_handlers var \<noteq> []))"

definition names_ok :: "DriverManager \<Rightarrow> bool" where
  "names_ok s =
    (distinct (map name (drivers s)) \<and>
     (\<forall>d \<in> set (drivers s). case name d of DRIVER n \<Rightarrow> n \<le> driver_counter s))"

subsection \<open>The scenarios of the specification\<close>

definition S1_spec :: driver_data where
  "S1_spec =
    \<lparr>dd_DRIVER = Some ''udp_driver'',
     dd_SETUP = Some
       \<lparr>sd_parameters = Some [(''ip'', PStr ''127.0.0.1''), (''port'', PInt 8400)],
        sd_variables = Some
          [(''x'', \<lparr>handle = Some ''vh1'',
                   meta = [(''datatype'', PStr ''int''), (''size'', PInt 1),
                           (''operation'', PStr ''READ'')]\<rparr>)]\<rparr>\<rparr>"

text \<open>A request whose SETUP mapping has no parameters key.\<close>

definition bare_spec :: driver_data where
  "bare_spec =
    \<lparr>dd_DRIVER = Some ''udp_driver'',
     dd_SETUP = Some \<lparr>sd_parameters = None, sd_variables = None\<rparr>\<rparr>"

text \<open>The manager after scenario S1.\<close>

definition S1_state :: DriverManager where
  "S1_state =
    \<lparr>drivers =
       [\<lparr>class_name = ''udp_driver'', name = DRIVER 1, handlers = [''h1''],
         parameters = Some [(''ip'', PStr ''127.0.0.1''), (''port'', PInt 8400)],
         variables =
           [(''x'', \<lparr>var_handlers = [''vh1''],
                    var_parameters =
                      \<lparr>handle = Some ''vh1'',
                       meta = [(''datatype'', PStr ''int''), (''size'', PInt 1),
                               (''operation'', PStr ''READ'')]\<rparr>,
                    var_value = PNone, var_info = [], write_count = 0, read_count = 0\<rparr>)],
         status = None, info = [], info_log = [], latency = [], inbox = [], updates = []\<rparr>],
     driver_counter = 1, handles = [(''vh1'', (''x'', DRIVER 1))], running = True,
     stats_updates = [], status_updates = [], info_updates = [], var_info_updates = [],
     value_updates = [], start_time = 0, last_status_record = 0,
     effects =
       [Proc_start (DRIVER 1),
        Pipe_send (DRIVER 1)
          (ADD_VARIABLES
             [(''x'', \<lparr>handle = Some ''vh1'',
                      meta = [(''datatype'', PStr ''int''), (''size'', PInt 1),
                              (''operation'', PStr ''READ'')]\<rparr>)])]\<rparr>"

section \<open>Properties\<close>

lemma S1_state_run:
  "run_commands [(SETUP_DRIVERS, P_Setup [(''h1'', S1_spec)])] (DriverManager_init 0) = Inr S1_state"
  by code_simp

subsection \<open>Shutdown\<close>

text \<open>
  C1 (as amended). For every manager state, the CLEAN command replies the string
  SUCCESS, which the main loop sends to the host; afterwards the driver registry is
  empty, the manager no longer runs, and the trace has grown by an EXIT on the pipe
  of every driver that was in the registry and a join of its worker. The handle
  index is left as it was.
\<close>

theorem clean_shutdown:
  "\<exists>s' tr. send_command CLEAN data s = Inr (Some (P_Str ''SUCCESS''), s') \<and>
     cycle [(CLEAN, data)] now s =
       Inr ([], s'\<lparr>effects := effects s' @ [Host_send CLEAN (P_Str ''SUCCESS'')]\<rparr>) \<and>
     drivers s' = [] \<and> handles s' = handles s \<and> \<not> running s' \<and>
     effects s' = effects s @ tr \<and>
     (\<forall>d \<in> set (drivers s). Pipe_send (name d) EXIT \<in> set tr \<and> Proc_join (name d) \<in> set tr)"
  by (auto simp: send_command_def clean_drivers_def cycle_def)

theorem clean_shutdown_witness:
  "\<exists>s' tr. send_command CLEAN P_None S1_state = Inr (Some (P_Str ''SUCCESS''), s') \<and>
     cycle [(CLEAN, P_None)] 0 S1_state =
       Inr ([], s'\<lparr>effects := effects s' @ [Host_send CLEAN (P_Str ''SUCCESS'')]\<rparr>) \<and>
     drivers s' = [] \<and> handles s' = [(''vh1'', (''x'', DRIVER 1))] \<and> \<not> running s' \<and>
     effects s' = effects S1_state @ tr \<and>
     Pipe_send (DRIVER 1) EXIT \<in> set tr \<and> Proc_join (DRIVER 1) \<in> set tr"
  using clean_shutdown [of P_None S1_state 0] by (simp add: S1_state_def)

text \<open>
  C1 as stated fails: after scenario S1 and then CLEAN the handle index still
  holds the entry of the variable handle.
\<close>

theorem clean_keeps_handle_index:
  "map_sum id handles
     (run_commands [(SETUP_DRIVERS, P_Setup [(''h1'', S1_spec)]), (CLEAN, P_None)]
        (DriverManager_init 0))
   = Inr [(''vh1'', (''x'', DRIVER 1))]"
  by code_simp

subsection \<open>Compatibility of a request without parameters\<close>

text \<open>
  C5, at the failing input: against the driver of scenario S1, a request of the same
  class whose SETUP mapping has no parameters is not judged at all; is\_compatible
  raises AttributeError, and so does the resolver.
\<close>

theorem is_compatible_raises:
  "is_compatible (hd (drivers S1_state)) bare_spec = Inl AttributeError \<and>
   find_compatible_driver S1_state bare_spec = Inl AttributeError"
  by code_simp

subsection \<open>Statistics\<close>

text \<open>
  C9, at the failing input: a fresh manager with no driver and no host frame, one
  second after its start. The pass rebuilds the statistics, and sends nothing to the
  host: they stay in \<open>stats_updates\<close>.
\<close>

theorem stats_frame_withheld:
  "map_sum id (\<lambda>r. (stats_updates (snd r), effects (snd r))) (cycle [] 1 (DriverManager_init 0))
   = Inr ([(''DRIVER_COUNT'', 0), (''VARIABLE_COUNT'', 0)], [])"
  by code_simp

end
